theory Spec2Isabelle
  imports Complex_Main "HOL-Library.Sublist" "HOL-Library.List_Lexorder" "HOL-Library.Char_ord"
begin

section \<open>Python values shared by all modules\<close>

text \<open>
  The exceptions the modelled functions raise. A function that can raise returns
  \<open>error + 'a\<close>, with \<open>Inl\<close> for the exception.
\<close>

datatype error =
  TypeError | ValueError | IndexError | KeyError | AttributeError | NotFittedError

subsection \<open>Strings (\<open>str\<close> methods used by the sources)\<close>

text \<open>\<open>sub in s\<close>: \<open>sub\<close> occurs in \<open>s\<close> as a contiguous substring.\<close>

fun contains :: "string \<Rightarrow> string \<Rightarrow> bool" where
  "contains sub [] = (sub = [])"
| "contains sub (c # cs) = (prefix sub (c # cs) \<or> contains sub cs)"

text \<open>\<open>s.endswith(suf)\<close>.\<close>

definition endswith :: "string \<Rightarrow> string \<Rightarrow> bool" where
  "endswith s suf = (length suf \<le> length s \<and> drop (length s - length suf) s = suf)"

text \<open>
  \<open>s.replace(old, new)\<close>: every non-overlapping occurrence of \<open>old\<close>, found from the
  left, is replaced. With an empty \<open>old\<close> Python puts \<open>new\<close> before every character and
  at the end.
\<close>

function replace_ne :: "string \<Rightarrow> string \<Rightarrow> string \<Rightarrow> string" where
  "replace_ne old new [] = []"
| "replace_ne old new (c # cs) =
     (if old \<noteq> [] \<and> prefix old (c # cs)
      then new @ replace_ne old new (drop (length old) (c # cs))
      else c # replace_ne old new cs)"
  by pat_completeness auto
termination
  by (relation "measure (\<lambda>(old, new, s). length s)") (auto simp: neq_Nil_conv)

definition py_replace :: "string \<Rightarrow> string \<Rightarrow> string \<Rightarrow> string" where
  "py_replace s old new =
     (if old = [] then new @ concat (map (\<lambda>c. c # new) s) else replace_ne old new s)"

text \<open>
  \<open>s.split(sep)\<close> for a non-empty separator: the pieces between the non-overlapping
  occurrences of \<open>sep\<close>, found from the left. \<open>cur\<close> is the piece being read.
\<close>

function split_acc :: "string \<Rightarrow> string \<Rightarrow> string \<Rightarrow> string list" where
  "split_acc sep cur [] = [cur]"
| "split_acc sep cur (c # cs) =
     (if sep \<noteq> [] \<and> prefix sep (c # cs)
      then cur # split_acc sep [] (drop (length sep) (c # cs))
      else split_acc sep (cur @ [c]) cs)"
  by pat_completeness auto
termination
  by (relation "measure (\<lambda>(sep, cur, s). length s)") (auto simp: neq_Nil_conv)

definition py_split :: "string \<Rightarrow> string \<Rightarrow> error + string list" where
  "py_split s sep = (if sep = [] then Inl ValueError else Inr (split_acc sep [] s))"

text \<open>\<open>sep.join(xs)\<close>.\<close>

fun py_join :: "string \<Rightarrow> string list \<Rightarrow> string" where
  "py_join sep [] = []"
| "py_join sep [x] = x"
| "py_join sep (x # y # ys) = x @ sep @ py_join sep (y # ys)"

text \<open>\<open>xs[i]\<close> for \<open>i \<ge> 0\<close>, and \<open>xs[-1]\<close>: both raise IndexError out of range.\<close>

definition py_get :: "'a list \<Rightarrow> nat \<Rightarrow> error + 'a" where
  "py_get xs i = (if i < length xs then Inr (xs ! i) else Inl IndexError)"

definition py_last :: "'a list \<Rightarrow> error + 'a" where
  "py_last xs = (if xs = [] then Inl IndexError else Inr (last xs))"

text \<open>Sequencing of calls that can raise.\<close>

definition bind_err :: "error + 'a \<Rightarrow> ('a \<Rightarrow> error + 'b) \<Rightarrow> error + 'b" where
  "bind_err m f = (case m of Inl e \<Rightarrow> Inl e | Inr v \<Rightarrow> f v)"

section \<open>\<open>modeling_pipeline_article.py\<close>: \<open>format_feature_name\<close>\<close>

text \<open>
  Lines 105 to 113: the substrings to delete, chosen from the name as it is passed.
\<close>

definition del_substrings :: "string \<Rightarrow> string list" where
  "del_substrings feature_name =
     [''original_'']
     @ (if endswith feature_name ''TBR'' then [''TBR''] else [])
     @ (if contains ''ratio'' feature_name then [''_ratio''] else [])
     @ (if contains ''merged'' feature_name then [''_.3D._merged._''] else [''_.3D._''])"

text \<open>
  Lines 114 to 116: each substring is deleted in turn, then every dot becomes an
  underscore.
\<close>

definition strip_name :: "string \<Rightarrow> string" where
  "strip_name feature_name =
     py_replace
       (fold (\<lambda>substring name. py_replace name substring []) (del_substrings feature_name)
          feature_name)
       ''.'' ''_''"

text \<open>Lines 119 to 128: the abbreviation of the part before \<open>matrix\<close>.\<close>

definition abbreviate :: "string \<Rightarrow> string" where
  "abbreviate matrix_name =
     (if contains ''occurrence'' matrix_name then ''GLCM''
      else if contains ''Run_length'' matrix_name then ''GLRLM''
      else if contains ''Size_zone'' matrix_name then ''GLSZM''
      else if contains ''Neighbourhood_grey_tone_difference'' matrix_name then ''NGTDM''
      else if contains ''Neighbouring_grey_level_dependence'' matrix_name then ''NGLDM''
      else matrix_name)"

text \<open>Lines 117 to 129.\<close>

definition rename_matrix :: "string \<Rightarrow> error + string" where
  "rename_matrix feature_name =
     (if contains ''matrix'' feature_name
      then bind_err (py_split feature_name ''matrix'') (\<lambda>parts0.
           bind_err (py_get parts0 0) (\<lambda>matrix_name.
           bind_err (py_split feature_name ''matrix'') (\<lambda>parts1.
           bind_err (py_get parts1 1) (\<lambda>rest.
           Inr (py_join ''_'' [abbreviate matrix_name, rest])))))
      else Inr feature_name)"

text \<open>
  The whole function. Line 130 calls \<open>feature_name.replace('__', '_')\<close> and drops the
  result (Python strings are immutable), so the name is unchanged by it; the dropped
  value is the unused \<open>collapsed\<close>. Line 131 reads \<open>feature_name[-1]\<close>, which raises
  IndexError on the empty string.
\<close>

definition format_feature_name :: "string \<Rightarrow> error + string" where
  "format_feature_name feature_name =
     bind_err (rename_matrix (strip_name feature_name)) (\<lambda>name.
       let collapsed = py_replace name ''__'' ''_'' in
       bind_err (py_last name) (\<lambda>c.
         if c = CHR ''_'' then Inr (butlast name) else Inr name))"

section \<open>Arrays (\<open>numpy\<close>) and array-like arguments\<close>

text \<open>
  An array is its shape and its elements in row-major order. A two-dimensional array of
  shape \<open>[n, m]\<close> has \<open>n * m\<close> elements, row after row.
\<close>

record 'a ndarray =
  shape :: "nat list"
  data :: "'a list"

text \<open>
  What a caller can pass where an array is expected: \<open>None\<close>, a list, tuple or
  \<open>np.ndarray\<close> (as \<open>np.array\<close> reads it), a pandas DataFrame or Series (as
  \<open>to_numpy()\<close> reads it), a dictionary (as \<open>pd.DataFrame\<close> reads it), or any other
  object.
\<close>

datatype 'a pyarg =
  PyNone | ListLike "'a ndarray" | Frame "'a ndarray" | DictLike "'a ndarray" | OtherObject

text \<open>
  The coercion that opens \<open>_check_X_Y\<close>, \<open>before_after_comparison\<close> and the batch check of
  \<open>neuroComBat\<close>: a list, tuple or array goes through \<open>np.array\<close>, a DataFrame or Series
  through \<open>to_numpy()\<close>, anything else raises TypeError.
\<close>

definition as_array :: "'a pyarg \<Rightarrow> error + 'a ndarray" where
  "as_array x =
     (case x of ListLike a \<Rightarrow> Inr a | Frame a \<Rightarrow> Inr a | _ \<Rightarrow> Inl TypeError)"

text \<open>\<open>np.unique\<close>: the distinct elements, sorted.\<close>

definition unique :: "'a::linorder list \<Rightarrow> 'a list" where
  "unique xs = sort (remdups xs)"

text \<open>\<open>X[:, i]\<close> of a two-dimensional array.\<close>

definition column :: "'a ndarray \<Rightarrow> nat \<Rightarrow> 'a list" where
  "column X i = map (\<lambda>r. data X ! (r * (shape X ! 1) + i)) [0..<shape X ! 0]"

text \<open>
  \<open>col[y == v]\<close>: indexing a one-dimensional array with the boolean array \<open>y == v\<close>.
  numpy raises IndexError unless the mask has the shape of \<open>col\<close>.
\<close>

definition select_where :: "'a list \<Rightarrow> 'b ndarray \<Rightarrow> 'b \<Rightarrow> error + 'a list" where
  "select_where col y v =
     (if shape y = [length col]
      then Inr (map fst (filter (\<lambda>(x, l). l = v) (zip col (data y))))
      else Inl IndexError)"

text \<open>A comprehension whose body can raise: the first exception ends it.\<close>

fun mapM_err :: "('a \<Rightarrow> error + 'b) \<Rightarrow> 'a list \<Rightarrow> error + 'b list" where
  "mapM_err f [] = Inr []"
| "mapM_err f (x # xs) =
     (case f x of Inl e \<Rightarrow> Inl e
      | Inr v \<Rightarrow> (case mapM_err f xs of Inl e \<Rightarrow> Inl e | Inr vs \<Rightarrow> Inr (v # vs)))"

text \<open>
  The check of a batch or label vector shared by \<open>neuroComBat\<close>, \<open>before_after_comparison\<close>
  and \<open>_check_X_Y\<close>: one dimension, or two with a second dimension of 1 (the
  \<open>reshape(-1)\<close> of that branch is not assigned, so the array stays as it is), and more
  than one distinct value.
\<close>

definition check_vector :: "'a::linorder pyarg \<Rightarrow> error + 'a ndarray" where
  "check_vector v =
     bind_err (as_array v) (\<lambda>a.
       if length (shape a) \<noteq> 1 \<and> \<not> (length (shape a) = 2 \<and> shape a ! 1 = 1)
       then Inl ValueError
       else if length (unique (data a)) \<le> 1 then Inl ValueError
       else Inr a)"

section \<open>\<open>data_harmonization.py\<close>\<close>

subsection \<open>\<open>before_after_comparison\<close>\<close>

text \<open>
  The two tests are scipy's and are parameters: \<open>mannwhitneyu a b\<close> (two-sided) and
  \<open>kruskal groups\<close> return the pair (statistic, p-value) or raise.

  Lines 104 to 113, for one of the two tables.
\<close>

type_synonym test_result = "real \<times> real"

definition check_table :: "real pyarg \<Rightarrow> error + real ndarray" where
  "check_table X =
     bind_err (as_array X) (\<lambda>a. if length (shape a) \<noteq> 2 then Inl ValueError else Inr a)"

text \<open>
  Lines 135 to 141, for feature \<open>i\<close> of one table. With two labels the groups are the
  rows of each label. Otherwise line 139 builds one group per label, and every group is
  \<open>data[key][:, i][batch == i]\<close>: the rows whose batch value equals the feature index
  \<open>i\<close>, not the label.
\<close>

definition feature_pvalue ::
  "(real list \<Rightarrow> real list \<Rightarrow> error + test_result) \<Rightarrow> (real list list \<Rightarrow> error + test_result) \<Rightarrow>
   real ndarray \<Rightarrow> int ndarray \<Rightarrow> nat \<Rightarrow> error + real" where
  "feature_pvalue mannwhitneyu kruskal X batch i =
     (let labels = unique (data batch) in
      if length labels = 2
      then bind_err (select_where (column X i) batch (labels ! 0)) (\<lambda>g0.
           bind_err (select_where (column X i) batch (labels ! 1)) (\<lambda>g1.
           bind_err (mannwhitneyu g0 g1) (\<lambda>(statistic, pvalue). Inr pvalue)))
      else bind_err (mapM_err (\<lambda>_. select_where (column X i) batch (int i)) labels)
             (\<lambda>X_by_label.
           bind_err (kruskal X_by_label) (\<lambda>(statistic, pvalue). Inr pvalue)))"

text \<open>
  The whole function: both tables are checked, then the batch, then the p-values of the
  "before" table and of the "after" table are computed. The result is the DataFrame of
  the two lists, which pandas refuses (ValueError) when their lengths differ.
\<close>

definition before_after_comparison ::
  "(real list \<Rightarrow> real list \<Rightarrow> error + test_result) \<Rightarrow> (real list list \<Rightarrow> error + test_result) \<Rightarrow>
   real pyarg \<Rightarrow> real pyarg \<Rightarrow> int pyarg \<Rightarrow> error + (real list \<times> real list)" where
  "before_after_comparison mannwhitneyu kruskal X_before X_after batch =
     bind_err (check_table X_before) (\<lambda>data_before.
     bind_err (check_table X_after) (\<lambda>data_after.
     bind_err (check_vector batch) (\<lambda>b.
     bind_err (mapM_err (feature_pvalue mannwhitneyu kruskal data_before b)
                 [0..<shape data_before ! 1])
       (\<lambda>pvalue_before.
     bind_err (mapM_err (feature_pvalue mannwhitneyu kruskal data_after b)
                 [0..<shape data_after ! 1])
       (\<lambda>pvalue_after.
     if length pvalue_before = length pvalue_after
     then Inr (pvalue_before, pvalue_after) else Inl ValueError)))))"

text \<open>
  What the docstring (line 100, "Mann-Whitney for 2 classes else Kruskal-Wallis") and
  \<open>wlcx_score\<close> in \<open>feature_selection.py\<close> describe for more than two batches: one group
  per batch label, holding the rows of that label.
\<close>

definition groups_by_label :: "real ndarray \<Rightarrow> int ndarray \<Rightarrow> nat \<Rightarrow> error + real list list" where
  "groups_by_label X batch i =
     mapM_err (\<lambda>l. select_where (column X i) batch l) (unique (data batch))"

subsection \<open>\<open>neuroComBat\<close>\<close>

text \<open>
  Row and column labels of a pandas frame, and the covariate frame as far as the
  function reads it: its column names and its row index.
\<close>

datatype label = LInt int | LStr string

record cov_frame =
  cov_columns :: "label list"
  cov_index :: "label list"

text \<open>
  The \<open>covariate\<close> argument: \<open>None\<close>, a DataFrame, or a Python list that
  \<open>pd.DataFrame\<close> reads as the given frame. The \<open>num_covs\<close> argument: \<open>None\<close>, an int, a
  list of ints, or another object.
\<close>

datatype covariate_arg = CovNone | CovFrame cov_frame | CovList cov_frame

datatype num_covs_arg = NumCovsNone | NumCovsInt int | NumCovsList "int list" | NumCovsOther

text \<open>
  The \<open>columns\<close> argument of \<open>pd.DataFrame(data, columns=...)\<close>. pandas builds an
  \<open>Index\<close> from it and needs a collection: for a bare string \<open>Index\<close> raises
  TypeError ("Index(...) must be called with a collection of some kind"). With a list of
  names the number of names must be the number of columns of the data (ValueError).
\<close>

datatype columns_arg = ColumnsScalar string | ColumnsList "label list"

definition pd_DataFrame :: "'b ndarray \<Rightarrow> columns_arg \<Rightarrow> error + (label list \<times> 'b ndarray)" where
  "pd_DataFrame a cols =
     (case cols of
        ColumnsScalar name \<Rightarrow> Inl TypeError
      | ColumnsList names \<Rightarrow>
          if length names = (if length (shape a) = 2 then shape a ! 1 else 1)
          then Inr (names, a) else Inl ValueError)"

text \<open>
  The call of the external \<open>neuroCombat\<close> (line 87), as the record of its arguments.
\<close>

record 'b combat_call =
  dat :: "real ndarray"
  covars :: "label list"
  batch_col :: string
  categorical_cols :: "label list"
  continuous_cols :: "label list option"
  ref_batch_arg :: "'b option"
  parametric_arg :: bool
  eb :: bool
  mean_only_arg :: bool

text \<open>Lines 33 to 39: \<open>X\<close> as a DataFrame.\<close>

definition check_X :: "real pyarg \<Rightarrow> error + real ndarray" where
  "check_X X =
     (case X of Frame a \<Rightarrow> Inr a | ListLike a \<Rightarrow> Inr a | DictLike a \<Rightarrow> Inr a
      | _ \<Rightarrow> Inl TypeError)"

text \<open>
  Lines 42 to 49. The test of line 45 reads \<open>X\<close>, not \<open>covariate\<close>: the covariate is
  turned into a DataFrame only when \<open>X\<close> was not one, so a list passed along with a
  DataFrame \<open>X\<close> stays a list (the result \<open>None\<close>: no frame).
\<close>

definition check_covariate :: "real pyarg \<Rightarrow> covariate_arg \<Rightarrow> cov_frame option" where
  "check_covariate X covariate =
     (case covariate of
        CovNone \<Rightarrow> Some \<lparr>cov_columns = [], cov_index = []\<rparr>
      | CovFrame f \<Rightarrow> Some f
      | CovList f \<Rightarrow> (case X of Frame a \<Rightarrow> None | _ \<Rightarrow> Some f))"

text \<open>
  Lines 52 to 60: the names of the numeric covariates (read from the row index at the
  given positions, by pandas: the parameter \<open>index_take\<close>) and the categorical columns.
  A Python list has no \<open>columns\<close> (AttributeError), and its \<open>index\<close> is a method, which
  cannot be subscripted (TypeError).
\<close>

definition check_num_covs ::
  "(label list \<Rightarrow> int list \<Rightarrow> error + label list) \<Rightarrow> cov_frame option \<Rightarrow> num_covs_arg \<Rightarrow>
   error + (label list option \<times> label list)" where
  "check_num_covs index_take covariate num_covs =
     (case num_covs of
        NumCovsNone \<Rightarrow>
          (case covariate of None \<Rightarrow> Inl AttributeError
           | Some f \<Rightarrow> Inr (None, cov_columns f))
      | NumCovsOther \<Rightarrow> Inl TypeError
      | _ \<Rightarrow>
          (let positions = (case num_covs of NumCovsInt i \<Rightarrow> [i] | NumCovsList l \<Rightarrow> l | _ \<Rightarrow> [])
           in case covariate of None \<Rightarrow> Inl TypeError
              | Some f \<Rightarrow>
                  bind_err (index_take (cov_index f) positions) (\<lambda>names.
                    Inr (Some names, filter (\<lambda>c. c \<notin> set names) (cov_columns f)))))"

text \<open>
  The whole function. After the batch check, line 77 calls
  \<open>pd.DataFrame(batch, columns='batch')\<close> with the bare string \<open>'batch'\<close>. Lines 80 to
  92 follow: the batch column joins the covariates, \<open>ref_batch\<close> is checked against the
  batch values (ValueError), the external \<open>neuroCombat\<close> is called, and the result is
  returned with the directory the table was saved to, if any.
\<close>

definition neuroComBat ::
  "(label list \<Rightarrow> int list \<Rightarrow> error + label list) \<Rightarrow>
   ('b::linorder combat_call \<Rightarrow> error + real ndarray) \<Rightarrow>
   real pyarg \<Rightarrow> 'b pyarg \<Rightarrow> 'b option \<Rightarrow> covariate_arg \<Rightarrow> num_covs_arg \<Rightarrow>
   bool \<Rightarrow> bool \<Rightarrow> bool \<Rightarrow> string option \<Rightarrow> error + (real ndarray \<times> string option)" where
  "neuroComBat index_take neuroCombat X batch ref_batch covariate num_covs
     parametric empirical_bayes mean_only save_dir =
     bind_err (check_X X) (\<lambda>df.
     bind_err (check_num_covs index_take (check_covariate X covariate) num_covs)
       (\<lambda>(num_covs', cat_covs).
     bind_err (check_vector batch) (\<lambda>b.
     bind_err (pd_DataFrame b (ColumnsScalar ''batch'')) (\<lambda>(batch_columns, batch_values).
     let covariate' =
       (case check_covariate X covariate of None \<Rightarrow> [] | Some f \<Rightarrow> cov_columns f)
       @ batch_columns
     in
     if ref_batch \<noteq> None \<and> the ref_batch \<notin> set (unique (data batch_values))
     then Inl ValueError
     else bind_err
       (neuroCombat \<lparr>dat = df, covars = covariate', batch_col = ''batch'',
          categorical_cols = cat_covs, continuous_cols = num_covs', ref_batch_arg = ref_batch,
          parametric_arg = parametric, eb = empirical_bayes, mean_only_arg = mean_only\<rparr>)
       (\<lambda>results. Inr (results, save_dir))))))"

section \<open>\<open>local_intensity_features.py\<close>\<close>

text \<open>
  The image operations are SimpleITK's and scipy's and are parameters:
  \<open>GetMinimum img msk\<close> and \<open>GetMaximum img msk\<close> are the statistics of label 1
  after \<open>label_stats.Execute(image, mask)\<close>, \<open>local_mean img\<close> is the normalised
  convolution of lines 16 to 31, and \<open>equal_mask img v msk\<close> is
  \<open>(image == v) * mask\<close>.
\<close>

record ('img, 'msk) sitk =
  GetMinimum :: "'img \<Rightarrow> 'msk \<Rightarrow> real"
  GetMaximum :: "'img \<Rightarrow> 'msk \<Rightarrow> real"
  local_mean :: "'img \<Rightarrow> 'img"
  equal_mask :: "'img \<Rightarrow> real \<Rightarrow> 'msk \<Rightarrow> 'msk"

record intensity_peaks =
  local_intensity_peak :: real
  global_intensity_peak :: real

definition local_intensity_features ::
  "('img, 'msk) sitk \<Rightarrow> 'img \<Rightarrow> 'msk \<Rightarrow> string \<Rightarrow> error + intensity_peaks" where
  "local_intensity_features lib img msk target =
     (if target \<notin> set [''min'', ''max'', ''minimum'', ''maximum''] then Inl ValueError
      else
        let target_func =
              (if target \<in> set [''min'', ''minimum''] then GetMinimum lib else GetMaximum lib);
            convolved_image = local_mean lib img;
            target_mask = equal_mask lib img (target_func img msk) msk
        in Inr \<lparr>local_intensity_peak = target_func convolved_image target_mask,
                global_intensity_peak = target_func convolved_image msk\<rparr>)"

text \<open>\<open>str.lower()\<close> on ASCII letters.\<close>

definition lower_char :: "char \<Rightarrow> char" where
  "lower_char c =
     (if CHR ''A'' \<le> c \<and> c \<le> CHR ''Z'' then char_of (of_char c + (32::nat)) else c)"

definition lower :: "string \<Rightarrow> string" where
  "lower s = map lower_char s"

section \<open>\<open>modeling_pipeline_article.py\<close>: \<open>get_dataset\<close>\<close>

text \<open>
  Reading a spreadsheet and joining two tables column-wise are pandas calls, and
  \<open>MComBat\<close> and \<open>ComBat\<close> are names the function calls that no source file defines: all
  four are parameters, each returning a table or raising. \<open>MComBat\<close> takes the table, the
  batch, the reference batch and the covariates, \<open>ComBat\<close> the table, the batch and the
  covariates (\<open>save_dir\<close> is \<open>None\<close> in every call).
\<close>

record ('t, 'b, 'c) loader =
  read_excel :: "string \<Rightarrow> error + 't"
  concat_columns :: "'t \<Rightarrow> 't \<Rightarrow> error + 't"
  MComBat :: "'t \<Rightarrow> 'b \<Rightarrow> string \<Rightarrow> 'c \<Rightarrow> error + 't"
  ComBat :: "'t \<Rightarrow> 'b \<Rightarrow> 'c \<Rightarrow> error + 't"

text \<open>\<open>d[k]\<close> on a dictionary: KeyError when the key is missing.\<close>

definition dict_get :: "('k \<rightharpoonup> 'v) \<Rightarrow> 'k \<Rightarrow> error + 'v" where
  "dict_get d k = (case d k of None \<Rightarrow> Inl KeyError | Some v \<Rightarrow> Inr v)"

text \<open>
  \<open>pd.read_excel(dataset_dic[k], index_col=0)\<close>, and the \<open>if harmonization == 'MComBat'\<close>
  block that each of the four branches repeats.
\<close>

definition load :: "('t, 'b, 'c) loader \<Rightarrow> (string \<rightharpoonup> string) \<Rightarrow> string \<Rightarrow> error + 't" where
  "load env dataset_dic k = bind_err (dict_get dataset_dic k) (read_excel env)"

definition harmonize :: "('t, 'b, 'c) loader \<Rightarrow> string \<Rightarrow> 't \<Rightarrow> 'b \<Rightarrow> 'c \<Rightarrow> error + 't" where
  "harmonize env harmonization table batch covariates =
     (if harmonization = ''MComBat''
      then MComBat env table batch ''Vereos'' covariates
      else ComBat env table batch covariates)"

definition get_dataset ::
  "('t, 'b, 'c) loader \<Rightarrow> string \<Rightarrow> (string \<rightharpoonup> string) \<Rightarrow> 'b \<Rightarrow> string \<Rightarrow> 'c \<Rightarrow>
   error + (string \<rightharpoonup> 't)" where
  "get_dataset env dataset dataset_dic batch harmonization covariates =
     (if dataset = ''S+D'' then
        bind_err (load env dataset_dic ''S'') (\<lambda>stat.
        bind_err (load env dataset_dic ''D'') (\<lambda>dyn.
        bind_err (harmonize env harmonization stat batch covariates) (\<lambda>stat'.
        bind_err (concat_columns env stat' dyn) (\<lambda>table.
        Inr [''S+D'' \<mapsto> table]))))
      else if dataset = ''S+D+OR'' then
        bind_err (load env dataset_dic ''S'') (\<lambda>stat.
        bind_err (load env dataset_dic ''D'') (\<lambda>dyn.
        bind_err (load env dataset_dic ''OR'') (\<lambda>text.
        bind_err (concat_columns env stat text) (\<lambda>stat_text.
        bind_err (harmonize env harmonization stat_text batch covariates) (\<lambda>stat_text'.
        bind_err (concat_columns env stat_text' dyn) (\<lambda>table.
        Inr [''S+D+OR'' \<mapsto> table]))))))
      else if dataset = ''S'' then
        bind_err (load env dataset_dic ''S'') (\<lambda>stat.
        bind_err (harmonize env harmonization stat batch covariates) (\<lambda>stat'.
        Inr [''S'' \<mapsto> stat']))
      else if dataset = ''S+OR'' then
        bind_err (load env dataset_dic ''S'') (\<lambda>stat.
        bind_err (load env dataset_dic ''OR'') (\<lambda>text.
        bind_err (concat_columns env stat text) (\<lambda>stat_text.
        bind_err (harmonize env harmonization stat_text batch covariates) (\<lambda>stat_text'.
        Inr [''S+OR'' \<mapsto> stat_text']))))
      else Inl ValueError)"

text \<open>
  The parameters succeed on every input: what "the files are there and the harmonisation
  runs" means for the model.
\<close>

definition loader_succeeds :: "('t, 'b, 'c) loader \<Rightarrow> bool" where
  "loader_succeeds env =
     ((\<forall>path. \<exists>t. read_excel env path = Inr t) \<and>
      (\<forall>a b. \<exists>t. concat_columns env a b = Inr t) \<and>
      (\<forall>a b r c. \<exists>t. MComBat env a b r c = Inr t) \<and>
      (\<forall>a b c. \<exists>t. ComBat env a b c = Inr t))"

section \<open>\<open>modeling_pipeline_article.py\<close>: \<open>get_best_index\<close>\<close>


















section \<open>\<open>feature_selection.py\<close>\<close>

subsection \<open>Library functions\<close>

text \<open>
  \<open>list.index(v)\<close>: the first position of \<open>v\<close>, ValueError when it does not occur.
\<close>

fun index_of :: "'a list \<Rightarrow> 'a \<Rightarrow> nat option" where
  "index_of [] v = None"
| "index_of (x # xs) v = (if x = v then Some 0 else map_option Suc (index_of xs v))"

definition py_index :: "'a list \<Rightarrow> 'a \<Rightarrow> error + nat" where
  "py_index xs v = (case index_of xs v of None \<Rightarrow> Inl ValueError | Some i \<Rightarrow> Inr i)"

text \<open>\<open>xs[:k]\<close>: the first \<open>k\<close> elements, or all but the last \<open>-k\<close> when \<open>k\<close> is negative.\<close>

definition py_slice_to :: "'a list \<Rightarrow> int \<Rightarrow> 'a list" where
  "py_slice_to xs k = (if 0 \<le> k then take (nat k) xs else take (length xs - nat (- k)) xs)"

text \<open>
  scipy's \<open>rankdata\<close>. With \<open>method='ordinal'\<close> the values are sorted by a stable sort
  of their positions (\<open>argsort\<close>), and each position gets its place in that order,
  counted from 1, so equal values are ranked in the order they occur. With the default
  method \<open>'average'\<close> equal values share the mean of the places they take.
\<close>

definition argsort :: "'a::linorder list \<Rightarrow> nat list" where
  "argsort xs = sort_key (\<lambda>i. xs ! i) [0..<length xs]"

definition rankdata_ordinal :: "'a::linorder list \<Rightarrow> nat list" where
  "rankdata_ordinal xs =
     map (\<lambda>i. Suc (length (takeWhile (\<lambda>j. j \<noteq> i) (argsort xs)))) [0..<length xs]"

definition rankdata_average :: "real list \<Rightarrow> real list" where
  "rankdata_average xs =
     map (\<lambda>x. real (length (filter (\<lambda>y. y < x) xs))
               + (real (length (filter (\<lambda>y. y = x) xs)) + 1) / 2) xs"

text \<open>
  The statistics and learning libraries, as parameters. \<open>lib_kruskal\<close>, \<open>lib_pearsonr\<close>
  and \<open>lib_spearmanr\<close> return (statistic, p-value); \<open>lib_auc\<close> is the area under the ROC
  curve of one feature column as lines 262 to 297 compute it; \<open>lib_mutual_info_classif\<close>
  and \<open>lib_mrmr\<close> are the sklearn and skfeature functions; \<open>lib_resample n seed\<close> is
  sklearn's \<open>resample(range(n), random_state=seed)\<close>; \<open>lib_column_value name col m k\<close> is
  the float64 value an aggregation method computes for one feature from the column
  \<open>col\<close> of its bootstrap ranks (\<open>m\<close> features, \<open>k\<close> selected features), the value that is
  then ranked; \<open>lib_rankdata_nan\<close> is \<open>rankdata(nan, method='ordinal')\<close>, which scipy
  computes for the single NaN that \<open>np.mean\<close> gives when there is no bootstrap sample:
  the rank \<open>[1]\<close> with scipy before 1.10, and from 1.10 on a NaN rank (the value \<open>None\<close>).
\<close>

record 'sc fs_lib =
  lib_kruskal :: "real list list \<Rightarrow> error + test_result"
  lib_auc :: "real list \<Rightarrow> int ndarray option \<Rightarrow> error + real"
  lib_pearsonr :: "real list \<Rightarrow> int ndarray option \<Rightarrow> error + test_result"
  lib_spearmanr :: "real list \<Rightarrow> int ndarray option \<Rightarrow> error + test_result"
  lib_mutual_info_classif :: "real ndarray \<Rightarrow> int ndarray option \<Rightarrow> int option \<Rightarrow> error + real list"
  lib_mrmr :: "real ndarray \<Rightarrow> int ndarray option \<Rightarrow> nat \<Rightarrow> error + nat list"
  lib_resample :: "nat \<Rightarrow> nat \<Rightarrow> nat list"
  lib_column_value :: "string \<Rightarrow> real list \<Rightarrow> nat \<Rightarrow> int \<Rightarrow> 'sc"
  lib_rankdata_nan :: "nat list option"

subsection \<open>The selector\<close>

text \<open>
  What a scoring or ranking function returns: a numpy array (the built-in methods
  build one with \<open>np.zeros\<close> or \<open>np.array\<close>), or a Python list or tuple, which a
  user's function may return as well. \<open>np.array\<close>, \<open>rankdata\<close>, \<open>sorted\<close> and \<open>list\<close> read
  the values of both alike. They differ on line 429, \<open>score *= -1\<close>: an array is
  negated element by element, while a list or tuple is repeated \<open>-1\<close> times, which
  leaves it empty. The values, float64 in the code, are real numbers here.
\<close>

datatype returned = NdArray "real list" | PySequence "real list"

definition values_of :: "returned \<Rightarrow> real list" where
  "values_of v = (case v of NdArray a \<Rightarrow> a | PySequence l \<Rightarrow> l)"

definition times_minus_one :: "returned \<Rightarrow> returned" where
  "times_minus_one v =
     (case v of NdArray a \<Rightarrow> NdArray (map uminus a) | PySequence l \<Rightarrow> PySequence [])"


definition ndarray_of :: "error + real list \<Rightarrow> error + returned" where
  "ndarray_of r = bind_err r (\<lambda>a. Inr (NdArray a))"

text \<open>
  A scoring or ranking function takes the feature matrix and the labels (\<open>None\<close> when
  \<open>fit\<close> was called without labels) and returns one score or rank per feature, or
  raises. An aggregation function takes the bootstrap ranks, one row per sample, and
  the number of selected features.
\<close>

type_synonym scorer = "real ndarray \<Rightarrow> int ndarray option \<Rightarrow> error + returned"

type_synonym aggregator = "real list list \<Rightarrow> int \<Rightarrow> error + nat list"

text \<open>
  The constructor arguments that are not plain values: \<open>method\<close> (a name, a callable,
  or another object), \<open>ranking_aggregation\<close> (\<open>None\<close>, a name, a callable, or another
  object) and \<open>n_selected_features\<close> (\<open>None\<close>, an integer, or another object).
\<close>

datatype method_arg = MethodName string | MethodCallable scorer | MethodOther

datatype aggregation_arg = AggNone | AggName string | AggCallable | AggOther

datatype n_selected_arg = NSelNone | NSelInt int | NSelOther

text \<open>
  The attributes of a \<open>FilterFeatureSelection\<close> object. The last four are set by
  \<open>fit\<close>; \<open>None\<close> means the attribute does not exist yet. The field
  \<open>accepted_features_index'\<close> is the attribute \<open>accepted_features_index_\<close>, and the
  field \<open>fs_method\<close> is the attribute \<open>method\<close>.
\<close>

record selector =
  fs_method :: method_arg
  ranking_done :: bool
  score_indicator_lower :: "bool option"
  bootstrap :: bool
  n_bsamples :: int
  n_selected_features :: n_selected_arg
  ranking_aggregation :: aggregation_arg
  classification :: bool
  random_state :: "int option"
  n_samples :: "nat option"
  n_features :: "nat option"
  n_classes :: "nat option"
  accepted_features_index' :: "nat list option"

text \<open>\<open>__init__\<close> (lines 169 to 181).\<close>

definition FilterFeatureSelection ::
  "method_arg \<Rightarrow> bool \<Rightarrow> int \<Rightarrow> n_selected_arg \<Rightarrow> aggregation_arg \<Rightarrow> bool \<Rightarrow> bool option \<Rightarrow>
   bool \<Rightarrow> int option \<Rightarrow> selector" where
  "FilterFeatureSelection method' bootstrap' n_bsamples' n_selected_features'
     ranking_aggregation' ranking_done' score_indicator_lower' classification' random_state' =
     \<lparr>fs_method = method', ranking_done = ranking_done',
      score_indicator_lower = score_indicator_lower', bootstrap = bootstrap',
      n_bsamples = n_bsamples', n_selected_features = n_selected_features',
      ranking_aggregation = ranking_aggregation', classification = classification',
      random_state = random_state', n_samples = None, n_features = None, n_classes = None,
      accepted_features_index' = None\<rparr>"

text \<open>
  \<open>_check_X_Y\<close> (lines 23 to 50). The labels are checked only when they are given.
\<close>

definition check_X_Y ::
  "real pyarg \<Rightarrow> int pyarg \<Rightarrow> error + (real ndarray \<times> int ndarray option)" where
  "check_X_Y X y =
     bind_err (as_array X) (\<lambda>Xa.
       if length (shape Xa) \<noteq> 2 then Inl ValueError
       else case y of
              PyNone \<Rightarrow> Inr (Xa, None)
            | _ \<Rightarrow> bind_err (check_vector y) (\<lambda>ya. Inr (Xa, Some ya)))"

subsection \<open>Scoring and ranking methods\<close>

text \<open>
  \<open>wlcx_score\<close> (lines 247 to 255): for every feature, the Kruskal-Wallis statistic of
  the feature's values grouped by label, \<open>[X[:, i][y == _] for _ in labels]\<close>. Without
  labels \<open>np.unique(None)\<close> is the single label \<open>None\<close>, and the only group holds the
  whole column.
\<close>

definition groups_of :: "real list \<Rightarrow> int ndarray option \<Rightarrow> error + real list list" where
  "groups_of col y =
     (case y of None \<Rightarrow> Inr [col]
      | Some ya \<Rightarrow> mapM_err (\<lambda>l. select_where col ya l) (unique (data ya)))"

definition wlcx_score :: "'sc fs_lib \<Rightarrow> scorer" where
  "wlcx_score lib X y =
     ndarray_of
       (mapM_err (\<lambda>i. bind_err (groups_of (column X i) y) (\<lambda>X_by_label.
                    bind_err (lib_kruskal lib X_by_label) (\<lambda>(statistic, pvalue). Inr statistic)))
          [0..<shape X ! 1])"

text \<open>
  \<open>auc_roc\<close>, \<open>pearson_corr\<close> and \<open>spearman_corr\<close> (lines 258 to 316) fill one score per
  feature from the feature's column; \<open>mi\<close> (lines 318 to 320) returns what
  \<open>mutual_info_classif\<close> returns.
\<close>

definition auc_roc :: "'sc fs_lib \<Rightarrow> scorer" where
  "auc_roc lib X y =
     ndarray_of (mapM_err (\<lambda>i. lib_auc lib (column X i) y) [0..<shape X ! 1])"

definition pearson_corr :: "'sc fs_lib \<Rightarrow> scorer" where
  "pearson_corr lib X y =
     ndarray_of
       (mapM_err (\<lambda>i. bind_err (lib_pearsonr lib (column X i) y)
                        (\<lambda>(correlation, pvalue). Inr correlation))
          [0..<shape X ! 1])"

definition spearman_corr :: "'sc fs_lib \<Rightarrow> scorer" where
  "spearman_corr lib X y =
     ndarray_of
       (mapM_err (\<lambda>i. bind_err (lib_spearmanr lib (column X i) y)
                        (\<lambda>(correlation, pvalue). Inr correlation))
          [0..<shape X ! 1])"

definition mi :: "'sc fs_lib \<Rightarrow> selector \<Rightarrow> scorer" where
  "mi lib self X y = ndarray_of (lib_mutual_info_classif lib X y (random_state self))"

text \<open>
  \<open>mrmr\<close> (lines 324 to 328): the rank of feature \<open>i\<close> is one more than its position in
  the order the library returns; \<open>list.index\<close> raises ValueError for a feature that is
  not in it.
\<close>

definition mrmr :: "'sc fs_lib \<Rightarrow> scorer" where
  "mrmr lib X y =
     bind_err (lib_mrmr lib X y (shape X ! 1)) (\<lambda>rank_index.
       ndarray_of
         (mapM_err (\<lambda>i. bind_err (py_index rank_index i) (\<lambda>j. Inr (real (j + 1))))
            [0..<length rank_index]))"

text \<open>
  The class attributes \<open>scoring_methods\<close> and \<open>ranking_methods\<close> (lines 160 to 162), and
  \<open>getattr(self, method_name)\<close> for a name that is one of them.
\<close>

definition scoring_names :: "string list" where
  "scoring_names = [''auc_roc'', ''pearson_corr'', ''spearman_corr'', ''mi'', ''wlcx_score'']"

definition scoring_indicator_lower :: "bool list" where
  "scoring_indicator_lower = [False, False, False, False, False]"

definition ranking_methods :: "string list" where
  "ranking_methods = [''mrmr'']"

definition method_named :: "'sc fs_lib \<Rightarrow> selector \<Rightarrow> string \<Rightarrow> scorer" where
  "method_named lib self method_name =
     (if method_name = ''auc_roc'' then auc_roc lib
      else if method_name = ''pearson_corr'' then pearson_corr lib
      else if method_name = ''spearman_corr'' then spearman_corr lib
      else if method_name = ''mi'' then mi lib self
      else if method_name = ''wlcx_score'' then wlcx_score lib
      else mrmr lib)"

text \<open>
  \<open>_get_fs_func\<close> (lines 183 to 203): the function, and the object with \<open>ranking_done\<close>
  and \<open>score_indicator_lower\<close> set for a built-in method. The membership tests use the
  lower-cased name, but line 196 looks \<open>self.method\<close> itself up in the list of names
  (ValueError when it is not there in that spelling).
\<close>

definition get_fs_func :: "'sc fs_lib \<Rightarrow> selector \<Rightarrow> error + (scorer \<times> selector)" where
  "get_fs_func lib self =
     (case fs_method self of
        MethodCallable f \<Rightarrow> Inr (f, self)
      | MethodName name \<Rightarrow>
          (let method_name = lower name in
           if method_name \<notin> set (scoring_names @ ranking_methods) then Inl ValueError
           else if method_name \<in> set ranking_methods
           then Inr (method_named lib (self\<lparr>ranking_done := True\<rparr>) method_name,
                     self\<lparr>ranking_done := True\<rparr>)
           else if method_name \<in> set scoring_names
           then bind_err (py_index scoring_names name) (\<lambda>j.
                  let self' = self\<lparr>ranking_done := False,
                                   score_indicator_lower := Some (scoring_indicator_lower ! j)\<rparr>
                  in Inr (method_named lib self' method_name, self'))
           else Inl ValueError)
      | MethodOther \<Rightarrow> Inl TypeError)"

subsection \<open>Rank aggregation\<close>

text \<open>
  The six aggregation methods (lines 338 to 378) all have the shape
  \<open>rankdata(v, method='ordinal')\<close>, where \<open>v\<close> holds one float64 value per feature,
  computed along \<open>axis=0\<close> from that feature's column of the bootstrap ranks (the sum of
  \<open>shape[1] - rank\<close>, the mean, the count of ranks up to \<open>n_selected_features\<close>, ...).
  The value is the library parameter \<open>lib_column_value\<close>; the columns and the ordinal
  ranking are modelled.

  With no bootstrap sample (\<open>n_bsamples <= 0\<close>) the bootstrap ranks are \<open>np.array([])\<close>, of
  shape \<open>(0,)\<close>, and the methods differ. \<open>borda\<close> and \<open>enhanced_borda\<close> read \<open>shape[1]\<close>:
  IndexError. For \<open>stability_selection_aggregation\<close>, \<open>exponential_weighting\<close> and
  \<open>importance_score\<close>, \<open>np.sum\<close> over the empty array is the scalar \<open>0\<close> (for
  \<open>importance_score\<close> the scalar \<open>inf\<close> is what \<open>np.divide\<close> leaves), and \<open>rankdata\<close> of
  one number is \<open>[1]\<close>. For \<open>mean\<close>, \<open>np.mean\<close> gives NaN: \<open>rankdata\<close> gives \<open>[1]\<close> or
  a NaN rank, depending on scipy, and \<open>list.index\<close> on line 418 does not find a NaN rank
  (ValueError).
\<close>

definition aggregate_no_rows :: "'sc fs_lib \<Rightarrow> string \<Rightarrow> error + nat list" where
  "aggregate_no_rows lib name =
     (if name = ''borda'' \<or> name = ''enhanced_borda'' then Inl IndexError
      else if name = ''mean''
      then (case lib_rankdata_nan lib of None \<Rightarrow> Inl ValueError | Some ranks \<Rightarrow> Inr ranks)
      else Inr [1])"

text \<open>
  With at least one bootstrap sample the bootstrap ranks form a matrix, one row per
  sample: \<open>np.array\<close> refuses rows of different lengths (ValueError).
\<close>

definition aggregate :: "'sc::linorder fs_lib \<Rightarrow> string \<Rightarrow> aggregator" where
  "aggregate lib name bootstrap_ranks n_selected =
     (if bootstrap_ranks = [] then aggregate_no_rows lib name
      else if \<not> list_all (\<lambda>row. length row = length (hd bootstrap_ranks)) bootstrap_ranks
      then Inl ValueError
      else Inr (rankdata_ordinal
             (map (\<lambda>j. lib_column_value lib name (map (\<lambda>row. row ! j) bootstrap_ranks)
                          (length (hd bootstrap_ranks)) n_selected)
                [0..<length (hd bootstrap_ranks)])))"

definition borda :: "'sc::linorder fs_lib \<Rightarrow> aggregator" where
  "borda lib = aggregate lib ''borda''"

definition mean :: "'sc::linorder fs_lib \<Rightarrow> aggregator" where
  "mean lib = aggregate lib ''mean''"

definition stability_selection_aggregation :: "'sc::linorder fs_lib \<Rightarrow> aggregator" where
  "stability_selection_aggregation lib = aggregate lib ''stability_selection_aggregation''"

definition exponential_weighting :: "'sc::linorder fs_lib \<Rightarrow> aggregator" where
  "exponential_weighting lib = aggregate lib ''exponential_weighting''"

definition enhanced_borda :: "'sc::linorder fs_lib \<Rightarrow> aggregator" where
  "enhanced_borda lib = aggregate lib ''enhanced_borda''"

definition importance_score :: "'sc::linorder fs_lib \<Rightarrow> aggregator" where
  "importance_score lib = aggregate lib ''importance_score''"

definition ranking_aggregation_methods :: "string list" where
  "ranking_aggregation_methods =
     [''enhanced_borda'', ''borda'', ''importance_score'', ''mean'',
      ''stability_selection_aggregation'', ''exponential_weighting'']"

definition aggregation_named :: "'sc::linorder fs_lib \<Rightarrow> string \<Rightarrow> aggregator" where
  "aggregation_named lib name =
     (if name = ''enhanced_borda'' then enhanced_borda lib
      else if name = ''borda'' then borda lib
      else if name = ''importance_score'' then importance_score lib
      else if name = ''mean'' then mean lib
      else if name = ''stability_selection_aggregation'' then stability_selection_aggregation lib
      else exponential_weighting lib)"

text \<open>
  \<open>_get_aggregation_method\<close> (lines 205 to 215). Only the branch for a name has a
  \<open>return\<close>: for a callable the method returns \<open>None\<close>.
\<close>

definition get_aggregation_method ::
  "'sc::linorder fs_lib \<Rightarrow> selector \<Rightarrow> error + aggregator option" where
  "get_aggregation_method lib self =
     (case ranking_aggregation self of
        AggName name \<Rightarrow>
          if name \<notin> set ranking_aggregation_methods then Inl ValueError
          else Inr (Some (aggregation_named lib name))
      | AggCallable \<Rightarrow> Inr None
      | _ \<Rightarrow> Inl TypeError)"

text \<open>\<open>_check_n_selected_feature\<close> (lines 218 to 226).\<close>

definition check_n_selected_feature :: "real ndarray \<Rightarrow> n_selected_arg \<Rightarrow> error + int" where
  "check_n_selected_feature X n_selected =
     (case n_selected of
        NSelOther \<Rightarrow> Inl TypeError
      | NSelNone \<Rightarrow> Inr (int (shape X ! 1))
      | NSelInt k \<Rightarrow> Inr k)"

subsection \<open>Bootstrap samples\<close>

text \<open>
  \<open>y[sample]\<close> and \<open>X[sample, :]\<close> for a list of row numbers: IndexError for a row that
  does not exist, TypeError when \<open>y\<close> is \<open>None\<close>.
\<close>

definition take_labels :: "int ndarray option \<Rightarrow> nat list \<Rightarrow> error + int ndarray" where
  "take_labels y sample =
     (case y of None \<Rightarrow> Inl TypeError
      | Some ya \<Rightarrow>
          if list_all (\<lambda>r. r < shape ya ! 0) sample
          then Inr \<lparr>shape = length sample # tl (shape ya),
                    data = map (\<lambda>r. data ya ! r) sample\<rparr>
          else Inl IndexError)"

definition take_rows :: "real ndarray \<Rightarrow> nat list \<Rightarrow> error + real ndarray" where
  "take_rows X sample =
     (if list_all (\<lambda>r. r < shape X ! 0) sample
      then Inr \<lparr>shape = [length sample, shape X ! 1],
                data = concat (map (\<lambda>r. take (shape X ! 1) (drop (r * (shape X ! 1)) (data X)))
                                 sample)\<rparr>
      else Inl IndexError)"

text \<open>
  \<open>_get_bsamples_index\<close> (lines 228 to 238). The loop draws samples with the seeds
  \<open>n = 0, 1, 2, ...\<close> and keeps those in which every class occurs, until it has
  \<open>n_bsamples\<close> of them; nothing bounds the number of draws, so the loop may not end
  (the value \<open>None\<close>).
\<close>

definition sample_complete :: "int ndarray option \<Rightarrow> nat option \<Rightarrow> nat list \<Rightarrow> error + bool" where
  "sample_complete y classes sample =
     bind_err (take_labels y sample) (\<lambda>ys.
       Inr (Some (length (unique (data ys))) = classes))"

partial_function (option) bsamples_loop ::
  "(nat \<Rightarrow> nat list) \<Rightarrow> (nat list \<Rightarrow> error + bool) \<Rightarrow> int \<Rightarrow> nat list list \<Rightarrow> nat \<Rightarrow>
   (error + nat list list) option" where
  "bsamples_loop draw all_classes wanted bsamples_index n =
     (if int (length bsamples_index) < wanted
      then (if isl (all_classes (draw n)) then Some (Inl (projl (all_classes (draw n))))
            else bsamples_loop draw all_classes wanted
                   (if projr (all_classes (draw n)) then bsamples_index @ [draw n]
                    else bsamples_index)
                   (n + 1))
      else Some (Inr bsamples_index))"

declare bsamples_loop.simps [code]

definition get_bsamples_index ::
  "'sc fs_lib \<Rightarrow> selector \<Rightarrow> int ndarray option \<Rightarrow> (error + nat list list) option" where
  "get_bsamples_index lib self y =
     (case n_samples self of
        None \<Rightarrow> Some (Inl AttributeError)
      | Some n \<Rightarrow>
          bsamples_loop (lib_resample lib n) (sample_complete y (n_classes self))
            (n_bsamples self) [] 0)"

subsection \<open>\<open>fit\<close>\<close>

text \<open>
  Lines 418 to 419 and line 431: the features in the order of their ranks,
  \<open>[list(ranks).index(_) for _ in sorted(ranks)]\<close>.
\<close>

definition ranking_index_of :: "'a::linorder list \<Rightarrow> error + nat list" where
  "ranking_index_of ranks = mapM_err (py_index ranks) (sort ranks)"

text \<open>
  Lines 421 to 431, without bootstrap: the ranks are what a ranking method returns, or
  the ordinal ranks of the scores after \<open>score *= -1\<close> unless a lower score is better.
  \<open>score\<close> is what the method returned, as it returned it: a numpy array is negated, a
  Python list or tuple becomes empty, and then no feature is ranked.
\<close>

definition direct_ranking ::
  "scorer \<Rightarrow> selector \<Rightarrow> real ndarray \<Rightarrow> int ndarray option \<Rightarrow> error + nat list" where
  "direct_ranking fs_func self X y =
     (if ranking_done self
      then bind_err (fs_func X y) (\<lambda>ranks. ranking_index_of (values_of ranks))
      else if score_indicator_lower self = None then Inl ValueError
      else bind_err (fs_func X y) (\<lambda>score.
             ranking_index_of
               (rankdata_ordinal
                  (values_of (if \<not> the (score_indicator_lower self)
                              then times_minus_one score else score)))))"

text \<open>
  \<open>np.array(rows)\<close> for a list of rows, each a numpy array, a list or a tuple: a matrix
  of their values, ValueError when the rows differ in length. No row gives the empty
  array.
\<close>

definition np_matrix :: "returned list \<Rightarrow> error + real list list" where
  "np_matrix rows =
     (if list_all (\<lambda>row. length (values_of row) = length (values_of (hd rows))) rows
      then Inr (map values_of rows)
      else Inl ValueError)"

text \<open>
  Lines 407 to 416: the method is applied to every bootstrap sample, and scores become
  ranks by \<open>rankdata\<close> with its default method. Here \<open>*= -1\<close> is applied to the matrix
  that \<open>np.array\<close> has built, and negates every score.
\<close>

definition on_sample ::
  "scorer \<Rightarrow> real ndarray \<Rightarrow> int ndarray option \<Rightarrow> nat list \<Rightarrow> error + returned" where
  "on_sample fs_func X y sample =
     bind_err (take_rows X sample) (\<lambda>Xs.
     bind_err (take_labels y sample) (\<lambda>ys. fs_func Xs (Some ys)))"

definition bootstrap_ranks ::
  "scorer \<Rightarrow> selector \<Rightarrow> real ndarray \<Rightarrow> int ndarray option \<Rightarrow> nat list list \<Rightarrow>
   error + real list list" where
  "bootstrap_ranks fs_func self X y bsamples_index =
     (if ranking_done self
      then bind_err (mapM_err (on_sample fs_func X y) bsamples_index) np_matrix
      else if score_indicator_lower self = None then Inl ValueError
      else bind_err (mapM_err (on_sample fs_func X y) bsamples_index) (\<lambda>rows.
           bind_err (np_matrix rows) (\<lambda>boostrap_scores.
           Inr (map rankdata_average
                  (if \<not> the (score_indicator_lower self)
                   then map (map uminus) boostrap_scores else boostrap_scores)))))"

text \<open>
  Lines 404 to 419, with bootstrap. Calling the \<open>None\<close> that
  \<open>_get_aggregation_method\<close> returns for a callable raises TypeError.
\<close>

definition bootstrap_ranking ::
  "'sc fs_lib \<Rightarrow> scorer \<Rightarrow> aggregator option \<Rightarrow> selector \<Rightarrow> real ndarray \<Rightarrow>
   int ndarray option \<Rightarrow> int \<Rightarrow> (error + nat list) option" where
  "bootstrap_ranking lib fs_func aggregation_method self X y k =
     (if ranking_aggregation self = AggNone then Some (Inl ValueError)
      else map_option
        (\<lambda>drawn. bind_err drawn (\<lambda>bsamples_index.
           bind_err (bootstrap_ranks fs_func self X y bsamples_index) (\<lambda>ranks.
             case aggregation_method of
               None \<Rightarrow> Inl TypeError
             | Some aggregation \<Rightarrow>
                 bind_err (aggregation ranks k) ranking_index_of)))
        (get_bsamples_index lib self y))"

text \<open>
  \<open>fit\<close> (lines 396 to 433). The result is \<open>None\<close> when the bootstrap loop does not
  end, an exception, or the fitted object. The attributes an exception leaves on the
  object are not modelled.
\<close>

definition fit ::
  "'sc::linorder fs_lib \<Rightarrow> selector \<Rightarrow> real pyarg \<Rightarrow> int pyarg \<Rightarrow> (error + selector) option" where
  "fit lib self X y =
     (case check_X_Y X y of
        Inl e \<Rightarrow> Some (Inl e)
      | Inr (Xa, ya) \<Rightarrow>
     let self1 = self\<lparr>n_samples := Some (shape Xa ! 0), n_features := Some (shape Xa ! 1),
                       n_classes := Some (case ya of None \<Rightarrow> 1
                                          | Some a \<Rightarrow> length (unique (data a)))\<rparr>
     in case get_fs_func lib self1 of
        Inl e \<Rightarrow> Some (Inl e)
      | Inr (fs_func, self2) \<Rightarrow>
     (case (if ranking_aggregation self2 \<noteq> AggNone then get_aggregation_method lib self2
            else Inr None) of
        Inl e \<Rightarrow> Some (Inl e)
      | Inr aggregation_method \<Rightarrow>
     (case check_n_selected_feature Xa (n_selected_features self2) of
        Inl e \<Rightarrow> Some (Inl e)
      | Inr k \<Rightarrow>
     let self3 = self2\<lparr>n_selected_features := NSelInt k\<rparr> in
     map_option
       (\<lambda>ranked. bind_err ranked (\<lambda>ranking_index.
          Inr (self3\<lparr>accepted_features_index' := Some (py_slice_to ranking_index k)\<rparr>)))
       (if bootstrap self3
        then bootstrap_ranking lib fs_func aggregation_method self3 Xa ya k
        else Some (direct_ranking fs_func self3 Xa ya)))))"

subsection \<open>\<open>_get_support_mask\<close>, \<open>transform\<close> and \<open>fit_transform\<close>\<close>

text \<open>
  \<open>_get_support_mask\<close> (lines 240 to 243): \<open>n_features\<close> times \<open>False\<close>, with \<open>True\<close> at the
  accepted positions. AttributeError before \<open>fit\<close>, IndexError for a position that is
  not a feature.
\<close>

definition get_support_mask :: "selector \<Rightarrow> error + bool list" where
  "get_support_mask self =
     (case n_features self of
        None \<Rightarrow> Inl AttributeError
      | Some n \<Rightarrow>
          (case accepted_features_index' self of
             None \<Rightarrow> Inl AttributeError
           | Some accepted \<Rightarrow>
               if list_all (\<lambda>i. i < n) accepted
               then Inr (map (\<lambda>j. j \<in> set accepted) [0..<n])
               else Inl IndexError))"

text \<open>
  sklearn's \<open>SelectorMixin.transform\<close>, which line 95 calls: the columns of \<open>X\<close> where
  the support mask is \<open>True\<close>; an empty selection gives a matrix with no column, a mask
  of the wrong length raises ValueError.
\<close>

definition select_columns :: "real ndarray \<Rightarrow> bool list \<Rightarrow> real ndarray" where
  "select_columns X support =
     \<lparr>shape = [shape X ! 0, length (filter id support)],
      data = concat (map (\<lambda>r. map (\<lambda>j. data X ! (r * (shape X ! 1) + j))
                                 (filter (\<lambda>j. support ! j) [0..<shape X ! 1]))
                      [0..<shape X ! 0])\<rparr>"

definition selector_transform :: "selector \<Rightarrow> real ndarray \<Rightarrow> error + real ndarray" where
  "selector_transform self X =
     bind_err (get_support_mask self) (\<lambda>support.
       if \<not> list_ex id support then Inr \<lparr>shape = [shape X ! 0, 0], data = []\<rparr>
       else if length support \<noteq> shape X ! 1 then Inl ValueError
       else Inr (select_columns X support))"

text \<open>
  sklearn's \<open>check_is_fitted(estimator)\<close>: it raises NotFittedError when the estimator
  has no attribute whose name ends with an underscore (here
  \<open>accepted_features_index_\<close> is the only such attribute), and otherwise returns
  nothing, that is \<open>None\<close>. \<open>if check_is_fitted(self):\<close> on line 94 tests that \<open>None\<close>,
  which Python takes as false.
\<close>

definition check_is_fitted :: "selector \<Rightarrow> error + unit" where
  "check_is_fitted self =
     (case accepted_features_index' self of None \<Rightarrow> Inl NotFittedError | Some _ \<Rightarrow> Inr ())"

definition truth_of_None :: "unit \<Rightarrow> bool" where
  "truth_of_None none = False"

text \<open>\<open>transform\<close> (lines 93 to 98) and \<open>fit_transform\<close> (line 118).\<close>

definition transform :: "selector \<Rightarrow> real pyarg \<Rightarrow> error + real ndarray" where
  "transform self X =
     bind_err (check_X_Y X PyNone) (\<lambda>(Xa, _).
     bind_err (check_is_fitted self) (\<lambda>fitted.
       if truth_of_None fitted then selector_transform self Xa
       else Inl NotFittedError))"

definition fit_transform ::
  "'sc::linorder fs_lib \<Rightarrow> selector \<Rightarrow> real pyarg \<Rightarrow> int pyarg \<Rightarrow> (error + real ndarray) option"
  where
  "fit_transform lib self X y =
     map_option (\<lambda>fitted. bind_err fitted (\<lambda>self'. transform self' X)) (fit lib self X y)"


text \<open>
  An instance of the library parameters, to run the model on concrete data. Its
  Kruskal-Wallis statistic is a stand-in (the distance between the sums of the first
  and the last group), its \<open>resample\<close> returns every row once, and its \<open>mrmr\<close> returns
  the features in their order; none of this is scipy's or sklearn's arithmetic. Its
  \<open>rankdata\<close> of NaN is that of scipy from 1.10 on.
\<close>

definition example_lib :: "real fs_lib" where
  "example_lib =
     \<lparr>lib_kruskal = (\<lambda>groups. Inr (\<bar>sum_list (hd groups) - sum_list (last groups)\<bar>, 0)),
      lib_auc = (\<lambda>col y. Inr 0),
      lib_pearsonr = (\<lambda>col y. Inr (0, 0)),
      lib_spearmanr = (\<lambda>col y. Inr (0, 0)),
      lib_mutual_info_classif = (\<lambda>X y seed. Inr (replicate (shape X ! 1) 0)),
      lib_mrmr = (\<lambda>X y n. Inr [0..<n]),
      lib_resample = (\<lambda>n seed. [0..<n]),
      lib_column_value = (\<lambda>name col m k. sum_list col),
      lib_rankdata_nan = None\<rparr>"

section \<open>Properties\<close>

subsection \<open>Evaluation of ranges\<close>

lemma upt_0_1: "[0..<1] = [0]"
  by (simp add: upt_rec)

lemma upt_0_2: "[0..<2] = [0, 1]"
  by (simp add: upt_rec)

lemma upt_0_3: "[0..<3] = [0, 1, 2]"
  by (simp add: upt_rec)

subsection \<open>\<open>format_feature_name\<close>\<close>

lemma split_acc_nonempty: "split_acc sep cur s \<noteq> []"
  by (induction sep cur s rule: split_acc.induct) auto

lemma split_acc_two:
  "sep \<noteq> [] \<Longrightarrow> contains sep s \<Longrightarrow> 2 \<le> length (split_acc sep cur s)"
proof (induction sep cur s rule: split_acc.induct)
  case (1 sep cur)
  then show ?case by simp
next
  case (2 sep cur c cs)
  show ?case
  proof (cases "prefix sep (c # cs)")
    case True
    have "split_acc sep [] (drop (length sep) (c # cs)) \<noteq> []"
      by (rule split_acc_nonempty)
    then have "1 \<le> length (split_acc sep [] (drop (length sep) (c # cs)))"
      by (cases "split_acc sep [] (drop (length sep) (c # cs))") auto
    with True 2(3) show ?thesis by simp
  next
    case False
    with 2 show ?thesis by simp
  qed
qed

lemma rename_matrix_result:
  "\<exists>r. rename_matrix n = Inr r \<and> (n \<noteq> [] \<longrightarrow> r \<noteq> [])"
proof (cases "contains ''matrix'' n")
  case True
  then have "2 \<le> length (split_acc ''matrix'' [] n)"
    by (intro split_acc_two) simp_all
  with True show ?thesis
    by (simp add: rename_matrix_def py_split_def py_get_def bind_err_def split_acc_nonempty)
next
  case False
  then show ?thesis by (simp add: rename_matrix_def)
qed

lemma rename_matrix_empty: "rename_matrix [] = Inr []"
  by (simp add: rename_matrix_def)

text \<open>
  C4. On \<open>"original_occurrence_matrix_Correlation"\<close> the function returns
  \<open>"GLCM__Correlation"\<close>, with two underscores: the abbreviation \<open>GLCM\<close> is joined by
  \<open>'_'\<close> to the remainder \<open>"_Correlation"\<close>, and the replacement of \<open>'__'\<close> by \<open>'_'\<close> on
  line 130 is computed and dropped. The claimed result \<open>"GLCM_Correlation"\<close> is what the
  function would return if line 130 assigned its result.
\<close>

theorem format_feature_name_glcm:
  "format_feature_name ''original_occurrence_matrix_Correlation'' = Inr ''GLCM__Correlation''
   \<and> py_replace ''GLCM__Correlation'' ''__'' ''_'' = ''GLCM_Correlation''"
  by code_simp

text \<open>
  C8, as the code has it. The function is total, and it returns a string exactly when
  the name left by the deletions and the dot replacement (lines 105 to 116) is not
  empty; when that name is empty, line 131 reads \<open>feature_name[-1]\<close> of the empty string
  and the function raises IndexError.
\<close>

theorem format_feature_name_raises_iff_empty:
  "(strip_name s = [] \<longrightarrow> format_feature_name s = Inl IndexError) \<and>
   (strip_name s \<noteq> [] \<longrightarrow> (\<exists>r. format_feature_name s = Inr r))"
proof (intro conjI impI)
  assume "strip_name s = []"
  then show "format_feature_name s = Inl IndexError"
    by (simp add: format_feature_name_def rename_matrix_empty bind_err_def py_last_def)
next
  assume ne: "strip_name s \<noteq> []"
  obtain r where r: "rename_matrix (strip_name s) = Inr r" "r \<noteq> []"
    using rename_matrix_result [of "strip_name s"] ne by auto
  then show "\<exists>r. format_feature_name s = Inr r"
    by (simp add: format_feature_name_def bind_err_def py_last_def Let_def)
qed

theorem format_feature_name_raises_iff_empty_witness:
  "format_feature_name ''original_'' = Inl IndexError \<and>
   (\<exists>r. format_feature_name ''Feature.3D._TBR'' = Inr r)"
proof -
  have a: "strip_name ''original_'' = []" by code_simp
  have b: "strip_name ''Feature.3D._TBR'' \<noteq> []" by code_simp
  show ?thesis
    using format_feature_name_raises_iff_empty [of "''original_''"]
      format_feature_name_raises_iff_empty [of "''Feature.3D._TBR''"] a b
    by blast
qed

text \<open>
  C8, as stated, fails: on the empty string (and on \<open>"original_"\<close>) the function raises.
\<close>

theorem format_feature_name_empty_counterexample:
  "\<not> (\<forall>s. \<exists>r. format_feature_name s = Inr r)"
proof
  assume "\<forall>s. \<exists>r. format_feature_name s = Inr r"
  then obtain r where "format_feature_name [] = Inr r" by blast
  moreover have "format_feature_name [] = Inl IndexError" by code_simp
  ultimately show False by simp
qed

subsection \<open>\<open>local_intensity_features\<close>\<close>

text \<open>
  C7, as the code has it. The target is compared with the four lower-case words as they
  are, with no case folding: the function raises ValueError exactly when the target is
  not one of \<open>min\<close>, \<open>max\<close>, \<open>minimum\<close>, \<open>maximum\<close> written in lower case, and otherwise
  returns the two peaks.
\<close>

theorem local_intensity_features_target:
  "(local_intensity_features lib img msk target = Inl ValueError) =
     (target \<notin> {''min'', ''max'', ''minimum'', ''maximum''})
   \<and> ((\<exists>r. local_intensity_features lib img msk target = Inr r) =
     (target \<in> {''min'', ''max'', ''minimum'', ''maximum''}))"
  by (auto simp: local_intensity_features_def Let_def)

theorem local_intensity_features_target_witness:
  "(\<forall>lib img msk. local_intensity_features lib img msk ''median'' = Inl ValueError)
   \<and> (\<forall>lib img msk. \<exists>r. local_intensity_features lib img msk ''minimum'' = Inr r)"
proof (intro conjI allI)
  fix lib :: "('a, 'b) sitk" and img :: 'a and msk :: 'b
  show "local_intensity_features lib img msk ''median'' = Inl ValueError"
    using local_intensity_features_target [of lib img msk "''median''"] by simp
next
  fix lib :: "('c, 'd) sitk" and img :: 'c and msk :: 'd
  show "\<exists>r. local_intensity_features lib img msk ''minimum'' = Inr r"
    using local_intensity_features_target [of lib img msk "''minimum''"] by simp
qed

text \<open>
  C7, as stated, fails: \<open>'MAX'\<close> is \<open>max\<close> in another letter case, and it is rejected.
\<close>

theorem local_intensity_features_case_counterexample:
  "lower ''MAX'' = ''max'' \<and>
   (\<forall>lib img msk. local_intensity_features lib img msk ''MAX'' = Inl ValueError)"
proof -
  have "lower ''MAX'' = ''max''" by code_simp
  then show ?thesis by (simp add: local_intensity_features_def)
qed

subsection \<open>\<open>before_after_comparison\<close>\<close>

text \<open>
  C3. With three batches \<open>0, 1, 2\<close>, one feature and the rows \<open>10, 20, 30\<close>, the
  Kruskal-Wallis test receives three copies of the rows whose batch equals the feature
  index 0, that is \<open>[[10], [10], [10]]\<close>, for the "before" and the "after" table alike.
  The partition of the feature by batch label is \<open>[[10], [20], [30]]\<close>.
\<close>

theorem before_after_comparison_groups:
  "(\<forall>mannwhitneyu kruskal.
      before_after_comparison mannwhitneyu kruskal
        (ListLike \<lparr>shape = [3, 1], data = [10, 20, 30]\<rparr>)
        (ListLike \<lparr>shape = [3, 1], data = [10, 20, 30]\<rparr>)
        (ListLike \<lparr>shape = [3], data = [0, 1, 2]\<rparr>)
      = (case kruskal [[10], [10], [10]] of Inl e \<Rightarrow> Inl e
         | Inr (statistic, pvalue) \<Rightarrow> Inr ([pvalue], [pvalue])))
   \<and> groups_by_label \<lparr>shape = [3, 1], data = [10, 20, 30]\<rparr> \<lparr>shape = [3], data = [0, 1, 2]\<rparr> 0
      = Inr [[10], [20], [30]]"
  by (simp add: before_after_comparison_def check_table_def check_vector_def as_array_def
      bind_err_def feature_pvalue_def groups_by_label_def unique_def select_where_def
      column_def Let_def upt_0_3 upt_0_1 split: sum.splits)

subsection \<open>\<open>neuroComBat\<close>\<close>

text \<open>
  C6. With a DataFrame \<open>X\<close>, the batch vector \<open>['A', 'B']\<close> and no covariates, the call
  raises TypeError whatever \<open>ref_batch\<close> is (absent, one of the batch values, or a value
  that is not among them): the batch check passes, and line 77 then builds the batch
  frame with \<open>columns='batch'\<close>, which pandas refuses. The check of \<open>ref_batch\<close> on line
  84 is not reached.
\<close>

theorem neuroComBat_ref_batch_unreached:
  "\<forall>index_take neuroCombat ref_batch.
     neuroComBat index_take neuroCombat (Frame \<lparr>shape = [2, 1], data = [1, 2]\<rparr>)
       (ListLike \<lparr>shape = [2], data = [''A'', ''B'']\<rparr>) ref_batch CovNone NumCovsNone
       False True False None
     = Inl TypeError"
  by (simp add: neuroComBat_def check_X_def check_num_covs_def check_covariate_def
      check_vector_def as_array_def bind_err_def unique_def pd_DataFrame_def)

subsection \<open>\<open>get_dataset\<close>\<close>

lemma load_ok:
  "loader_succeeds env \<Longrightarrow> k \<in> dom dataset_dic \<Longrightarrow> \<exists>t. load env dataset_dic k = Inr t"
  by (auto simp: loader_succeeds_def load_def dict_get_def bind_err_def)

lemma harmonize_ok:
  "loader_succeeds env \<Longrightarrow> \<exists>t'. harmonize env harmonization t batch covariates = Inr t'"
  by (simp add: loader_succeeds_def harmonize_def)

lemma concat_ok: "loader_succeeds env \<Longrightarrow> \<exists>t. concat_columns env a b = Inr t"
  by (simp add: loader_succeeds_def)

text \<open>
  C2, as the code has it. The function has four branches, for the ids \<open>S\<close>, \<open>S+D\<close>,
  \<open>S+D+OR\<close> and \<open>S+OR\<close>: every other id raises ValueError, and for each of the four,
  when the three files are listed and reading, joining and harmonising succeed, the
  result is the mapping with the single key \<open>dataset\<close>.
\<close>

theorem get_dataset_accepts_four:
  "(dataset \<notin> {''S'', ''S+D'', ''S+D+OR'', ''S+OR''} \<longrightarrow>
      get_dataset env dataset dataset_dic batch harmonization covariates = Inl ValueError)
   \<and> (dataset \<in> {''S'', ''S+D'', ''S+D+OR'', ''S+OR''} \<and> loader_succeeds env \<and>
        {''S'', ''D'', ''OR''} \<subseteq> dom dataset_dic \<longrightarrow>
      (\<exists>table. get_dataset env dataset dataset_dic batch harmonization covariates
         = Inr [dataset \<mapsto> table]))"
proof (intro conjI impI)
  assume "dataset \<notin> {''S'', ''S+D'', ''S+D+OR'', ''S+OR''}"
  then show "get_dataset env dataset dataset_dic batch harmonization covariates = Inl ValueError"
    by (simp add: get_dataset_def)
next
  assume a: "dataset \<in> {''S'', ''S+D'', ''S+D+OR'', ''S+OR''} \<and> loader_succeeds env \<and>
        {''S'', ''D'', ''OR''} \<subseteq> dom dataset_dic"
  then have ok: "loader_succeeds env" by simp
  obtain stat where stat: "load env dataset_dic ''S'' = Inr stat"
    using load_ok [OF ok, of "''S''" dataset_dic] a by auto
  obtain dyn where dyn: "load env dataset_dic ''D'' = Inr dyn"
    using load_ok [OF ok, of "''D''" dataset_dic] a by auto
  obtain region where region: "load env dataset_dic ''OR'' = Inr region"
    using load_ok [OF ok, of "''OR''" dataset_dic] a by auto
  obtain stat' where stat': "harmonize env harmonization stat batch covariates = Inr stat'"
    using harmonize_ok [OF ok] by blast
  obtain sd where sd: "concat_columns env stat' dyn = Inr sd"
    using concat_ok [OF ok] by blast
  obtain st where st: "concat_columns env stat region = Inr st"
    using concat_ok [OF ok] by blast
  obtain st' where st': "harmonize env harmonization st batch covariates = Inr st'"
    using harmonize_ok [OF ok] by blast
  obtain std where std: "concat_columns env st' dyn = Inr std"
    using concat_ok [OF ok] by blast
  from a consider "dataset = ''S''" | "dataset = ''S+D''" | "dataset = ''S+D+OR''"
    | "dataset = ''S+OR''" by auto
  then show "\<exists>table. get_dataset env dataset dataset_dic batch harmonization covariates
         = Inr [dataset \<mapsto> table]"
  proof cases
    case 1
    then show ?thesis by (intro exI [of _ stat']) (simp add: get_dataset_def bind_err_def stat stat')
  next
    case 2
    then show ?thesis by (intro exI [of _ sd]) (simp add: get_dataset_def bind_err_def stat dyn stat' sd)
  next
    case 3
    then show ?thesis
      by (intro exI [of _ std]) (simp add: get_dataset_def bind_err_def stat dyn region st st' std)
  next
    case 4
    then show ?thesis
      by (intro exI [of _ st']) (simp add: get_dataset_def bind_err_def stat region st st')
  qed
qed

theorem get_dataset_accepts_four_witness:
  "get_dataset \<lparr>read_excel = Inr, concat_columns = (\<lambda>a b. Inr (a @ b)),
       MComBat = (\<lambda>t b r c. Inr t), ComBat = (\<lambda>t b c. Inr t)\<rparr>
     ''X'' [''S'' \<mapsto> ''S.xlsx'', ''D'' \<mapsto> ''D.xlsx'', ''OR'' \<mapsto> ''OR_tumor.xlsx'']
     () ''MComBat'' () = Inl ValueError
   \<and> (\<exists>table. get_dataset \<lparr>read_excel = Inr, concat_columns = (\<lambda>a b. Inr (a @ b)),
       MComBat = (\<lambda>t b r c. Inr t), ComBat = (\<lambda>t b c. Inr t)\<rparr>
     ''S+D'' [''S'' \<mapsto> ''S.xlsx'', ''D'' \<mapsto> ''D.xlsx'', ''OR'' \<mapsto> ''OR_tumor.xlsx'']
     () ''MComBat'' () = Inr [''S+D'' \<mapsto> table])"
proof -
  let ?env = "\<lparr>read_excel = Inr, concat_columns = (\<lambda>a b. Inr (a @ b)),
       MComBat = (\<lambda>t b r c. Inr t), ComBat = (\<lambda>t b c. Inr t)\<rparr>
       :: (string, unit, unit) loader"
  let ?dic = "[''S'' \<mapsto> ''S.xlsx'', ''D'' \<mapsto> ''D.xlsx'', ''OR'' \<mapsto> ''OR_tumor.xlsx'']"
  have ok: "loader_succeeds ?env" by (simp add: loader_succeeds_def)
  have dom: "{''S'', ''D'', ''OR''} \<subseteq> dom ?dic" by simp
  show ?thesis
    using get_dataset_accepts_four [of "''X''" ?env ?dic "()" "''MComBat''" "()"]
      get_dataset_accepts_four [of "''S+D''" ?env ?dic "()" "''MComBat''" "()"] ok dom
    by simp
qed

text \<open>
  C2, as stated, fails: \<open>D\<close> (and likewise \<open>OR\<close>) is in the claimed set of six ids and
  is rejected with ValueError, whatever the files and the harmonisation are.
\<close>

theorem get_dataset_D_counterexample:
  "\<forall>env dataset_dic batch harmonization covariates.
     get_dataset env ''D'' dataset_dic batch harmonization covariates = Inl ValueError"
  by (simp add: get_dataset_def)

subsection \<open>\<open>get_best_index\<close>\<close>

















subsection \<open>\<open>transform\<close> and \<open>fit_transform\<close>\<close>

lemma transform_two_dimensional:
  "as_array X = Inr a \<Longrightarrow> length (shape a) = 2 \<Longrightarrow> transform s X = Inl NotFittedError"
  by (simp add: transform_def check_X_Y_def bind_err_def check_is_fitted_def truth_of_None_def
      split: option.splits)

lemma fit_two_dimensional:
  assumes "fit lib self X y = Some (Inr fitted)"
  shows "\<exists>a. as_array X = Inr a \<and> length (shape a) = 2"
proof (cases "as_array X")
  case (Inl e)
  with assms show ?thesis by (simp add: fit_def check_X_Y_def bind_err_def)
next
  case (Inr a)
  with assms show ?thesis
    by (cases "length (shape a) = 2") (simp_all add: fit_def check_X_Y_def bind_err_def)
qed

lemma projected_result:
  "map_option (map_sum id g) r = Some (Inr v) \<Longrightarrow> \<exists>s. r = Some (Inr s) \<and> g s = v"
  by (cases r; cases "the r") auto

text \<open>
  C1. Whenever \<open>fit(X, y)\<close> has succeeded, \<open>transform(X)\<close> on the fitted object raises
  NotFittedError, and so does \<open>fit_transform(X, y)\<close>: no matrix is returned.
  \<open>check_is_fitted\<close> returns \<open>None\<close> for a fitted object, so the test on line 94 is
  false and line 98 raises; the restriction to the retained columns on line 95 is not
  reached.
\<close>

theorem transform_after_fit_raises:
  assumes "fit lib self X y = Some (Inr fitted)"
  shows "transform fitted X = Inl NotFittedError \<and>
         fit_transform lib self X y = Some (Inl NotFittedError)"
proof -
  from fit_two_dimensional [OF assms]
  obtain a where "as_array X = Inr a" "length (shape a) = 2"
    by (elim exE conjE) (rule that)
  then have "transform fitted X = Inl NotFittedError"
    by (rule transform_two_dimensional)
  then show ?thesis using assms by (simp add: fit_transform_def bind_err_def)
qed

theorem transform_after_fit_raises_witness:
  "\<exists>fitted.
     fit example_lib
       (FilterFeatureSelection (MethodName ''wlcx_score'') False 100 (NSelInt 3) AggNone False
          None True None)
       (ListLike \<lparr>shape = [2, 10],
          data = [1, 2, 3, 4, 5, 6, 7, 8, 9, 10, 0, 0, 0, 0, 0, 0, 0, 0, 0, 0]\<rparr>)
       (ListLike \<lparr>shape = [2], data = [0, 1]\<rparr>) = Some (Inr fitted) \<and>
     accepted_features_index' fitted = Some [9, 8, 7] \<and>
     transform fitted
       (ListLike \<lparr>shape = [2, 10],
          data = [1, 2, 3, 4, 5, 6, 7, 8, 9, 10, 0, 0, 0, 0, 0, 0, 0, 0, 0, 0]\<rparr>)
       = Inl NotFittedError \<and>
     fit_transform example_lib
       (FilterFeatureSelection (MethodName ''wlcx_score'') False 100 (NSelInt 3) AggNone False
          None True None)
       (ListLike \<lparr>shape = [2, 10],
          data = [1, 2, 3, 4, 5, 6, 7, 8, 9, 10, 0, 0, 0, 0, 0, 0, 0, 0, 0, 0]\<rparr>)
       (ListLike \<lparr>shape = [2], data = [0, 1]\<rparr>) = Some (Inl NotFittedError)"
proof -
  let ?sel = "FilterFeatureSelection (MethodName ''wlcx_score'') False 100 (NSelInt 3) AggNone
    False None True None"
  let ?X = "ListLike \<lparr>shape = [2, 10],
          data = [1, 2, 3, 4, 5, 6, 7, 8, 9, 10, 0, 0, 0, 0, 0, 0, 0, 0, 0, 0::real]\<rparr>"
  let ?y = "ListLike \<lparr>shape = [2], data = [0, 1::int]\<rparr>"
  have "map_option (map_sum id accepted_features_index') (fit example_lib ?sel ?X ?y)
        = Some (Inr (Some [9, 8, 7]))"
    by code_simp
  from projected_result [OF this]
  obtain fitted where f: "fit example_lib ?sel ?X ?y = Some (Inr fitted)"
    and a: "accepted_features_index' fitted = Some [9, 8, 7]"
    by (elim exE conjE) (rule that)
  from transform_after_fit_raises [OF f]
  have t: "transform fitted ?X = Inl NotFittedError"
    and ft: "fit_transform example_lib ?sel ?X ?y = Some (Inl NotFittedError)"
    by (rule conjunct1, rule conjunct2)
  show ?thesis by (rule exI [of _ fitted]) (intro conjI f a t ft)
qed

text \<open>
  C9. On a freshly constructed \<open>FilterFeatureSelection\<close>, whatever its configuration,
  \<open>transform\<close> raises NotFittedError for every two-dimensional input: the object has no
  attribute ending with an underscore, so \<open>check_is_fitted\<close> raises.
\<close>

theorem transform_unfitted_raises:
  assumes "as_array X = Inr a" "length (shape a) = 2"
  shows "transform
           (FilterFeatureSelection method' bootstrap' n_bsamples' n_selected_features'
              ranking_aggregation' ranking_done' score_indicator_lower' classification'
              random_state') X
         = Inl NotFittedError
       \<and> check_is_fitted
           (FilterFeatureSelection method' bootstrap' n_bsamples' n_selected_features'
              ranking_aggregation' ranking_done' score_indicator_lower' classification'
              random_state')
         = Inl NotFittedError"
  using assms
  by (simp add: transform_def check_X_Y_def bind_err_def check_is_fitted_def
      FilterFeatureSelection_def)

theorem transform_unfitted_raises_witness:
  "transform
     (FilterFeatureSelection (MethodName ''wlcx_score'') False 100 (NSelInt 3) AggNone False
        None True None)
     (Frame \<lparr>shape = [2, 3], data = [1, 5, 3, 2, 2, 2]\<rparr>) = Inl NotFittedError"
proof -
  have a: "as_array (Frame \<lparr>shape = [2, 3], data = [1, 5, 3, 2, 2, 2::real]\<rparr>)
           = Inr \<lparr>shape = [2, 3], data = [1, 5, 3, 2, 2, 2]\<rparr>"
    by (simp add: as_array_def)
  have b: "length (shape \<lparr>shape = [2, 3], data = [1, 5, 3, 2, 2, 2::real]\<rparr>) = 2" by simp
  from transform_unfitted_raises [OF a b] show ?thesis by simp
qed

subsection \<open>The support mask after \<open>fit\<close>\<close>


































text \<open>
  The two other provisos are needed as well. With \<open>bootstrap=True\<close>, \<open>n_bsamples=0\<close> and
  \<open>stability_selection_aggregation\<close>, \<open>fit\<close> succeeds for three features and
  \<open>n_selected_features = 2\<close>: the aggregated rank is \<open>[1]\<close>, the accepted indices are
  \<open>[0]\<close>, one entry of the support mask is \<open>True\<close>.
\<close>

lemma fit_no_bootstrap_sample:
  "map_option (map_sum id get_support_mask)
     (fit example_lib
        (FilterFeatureSelection (MethodName ''wlcx_score'') True 0 (NSelInt 2)
           (AggName ''stability_selection_aggregation'') False None True None)
        (ListLike \<lparr>shape = [2, 3], data = [1, 5, 3, 2, 2, 2]\<rparr>)
        (ListLike \<lparr>shape = [2], data = [0, 1]\<rparr>))
   = Some (Inr (Inr [True, False, False]))"
  by code_simp

text \<open>
  With a callable scoring method that returns the Python list \<open>[3.0, 1.0, 2.0]\<close>,
  \<open>score_indicator_lower=False\<close> and no bootstrap, line 429 empties the list: \<open>fit\<close>
  succeeds, no index is accepted and no entry of the support mask is \<open>True\<close>. The same
  scores in a numpy array select two features.
\<close>

lemma fit_python_list_scores:
  "map_option (map_sum id get_support_mask)
     (fit example_lib
        (FilterFeatureSelection (MethodCallable (\<lambda>X y. Inr (PySequence [3, 1, 2]))) False 100
           (NSelInt 2) AggNone False (Some False) True None)
        (ListLike \<lparr>shape = [2, 3], data = [1, 5, 3, 2, 2, 2]\<rparr>)
        (ListLike \<lparr>shape = [2], data = [0, 1]\<rparr>))
   = Some (Inr (Inr [False, False, False]))"
  by code_simp

lemma fit_numpy_array_scores:
  "map_option (map_sum id get_support_mask)
     (fit example_lib
        (FilterFeatureSelection (MethodCallable (\<lambda>X y. Inr (NdArray [3, 1, 2]))) False 100
           (NSelInt 2) AggNone False (Some False) True None)
        (ListLike \<lparr>shape = [2, 3], data = [1, 5, 3, 2, 2, 2]\<rparr>)
        (ListLike \<lparr>shape = [2], data = [0, 1]\<rparr>))
   = Some (Inr (Inr [True, False, True]))"
  by code_simp

end
